theory Spec2Isabelle
  imports Complex_Main
begin

section \<open>JavaScript values and failures\<close>

text \<open>
  The functions of \<^verbatim>\<open>fuel-moisture-integration.js\<close> test their arguments with
  \<^verbatim>\<open>typeof\<close>, so arguments are JavaScript values. A JavaScript number is taken to be a
  real: rounding error, signed zero, NaN and the infinities of IEEE doubles are not
  represented, and zero is the positive zero. Where the source leaves the reals (a
  division by zero, arithmetic on \<^verbatim>\<open>undefined\<close>) it does not throw: the model says so
  with \<open>NotReal\<close> and gives no value.
\<close>

datatype jsval =
    JUndefined
  | JNull
  | JBool bool
  | JNum real
  | JStr string
  | JArr "jsval list"
  | JObj "(string \<times> jsval) list"

datatype js_error =
    Error string   \<comment> \<open>\<^verbatim>\<open>throw new Error(msg)\<close>\<close>
  | TypeError      \<comment> \<open>thrown by the engine: destructuring \<^verbatim>\<open>null\<close> or \<^verbatim>\<open>undefined\<close>\<close>
  | NotReal        \<comment> \<open>not a throw: the value is NaN or an infinity, which no real stands for\<close>

text \<open>\<^verbatim>\<open>typeof v === 'number'\<close>, giving the number.\<close>

fun typeofNumber :: "jsval \<Rightarrow> real option" where
  "typeofNumber (JNum x) = Some x"
| "typeofNumber _ = None"

text \<open>\<^verbatim>\<open>Math.round(x * 10) / 10\<close> and \<^verbatim>\<open>Math.round(x * 100) / 100\<close>.
  \<^verbatim>\<open>Math.round\<close> rounds a tie towards plus infinity, as \<^const>\<open>round\<close> does.\<close>

definition round1 :: "real \<Rightarrow> real" where
  "round1 x = real_of_int (round (x * 10)) / 10"

definition round2 :: "real \<Rightarrow> real" where
  "round2 x = real_of_int (round (x * 100)) / 100"

section \<open>fuel-moisture-integration.js\<close>

subsection \<open>computeEMC\<close>

definition computeEMC :: "jsval \<Rightarrow> jsval \<Rightarrow> js_error + real" where
  "computeEMC tempF rh =
     (case (typeofNumber tempF, typeofNumber rh) of
        (Some t, Some h) \<Rightarrow>
          if h < 0 \<or> h > 100
          then Inl (Error ''Relative humidity must be between 0 and 100'')
          else
            let emc =
              (if h \<le> 10 then max 0.1 (0.03 + (0.2626 * h) - (0.00104 * h * t))
               else if h \<le> 50 then 1.5 + (0.15 * h) - (0.01 * t / 10)
               else 6 + (0.25 * (h - 50)) + (0.02 * (100 - t) / 10))
            in Inr (max 0.1 (min 40 emc))
      | _ \<Rightarrow> Inl (Error ''Invalid input: temperature and humidity must be numbers''))"

subsection \<open>stepMoisture\<close>

text \<open>
  \<^verbatim>\<open>const k = hours / timeLag\<close>: with \<^verbatim>\<open>timeLag\<close> zero the quotient is an infinity
  or NaN. For positive hours \<^verbatim>\<open>k\<close> is Infinity, \<^verbatim>\<open>Math.exp(-k)\<close> is 0 and the result is
  \<^verbatim>\<open>Math.max(0, emc)\<close>. For negative hours \<^verbatim>\<open>Math.exp(-k)\<close> is Infinity: the sum is
  -Infinity below the equilibrium, clamped to 0, Infinity above it and NaN at it. For
  hours zero \<^verbatim>\<open>k\<close> is NaN and so is the result. The result is \<open>NotReal\<close> exactly
  where the source returns NaN or Infinity.
\<close>

definition stepMoisture :: "jsval \<Rightarrow> jsval \<Rightarrow> jsval \<Rightarrow> jsval \<Rightarrow> js_error + real" where
  "stepMoisture currentMoisture emc hours timeLag =
     (case (typeofNumber currentMoisture, typeofNumber emc,
            typeofNumber hours, typeofNumber timeLag) of
        (Some c, Some e, Some h, Some lag) \<Rightarrow>
          if lag = 0 then
            (if 0 < h then Inr (max 0 e)
             else if h < 0 \<and> c < e then Inr 0
             else Inl NotReal)
          else
            let k = h / lag;
                newMoisture = e + (c - e) * exp (- k)
            in Inr (max 0 newMoisture)
      | _ \<Rightarrow> Inl (Error ''Invalid input: all parameters must be numbers''))"

subsection \<open>runModel\<close>

text \<open>
  The loop's \<^verbatim>\<open>currentMoisture\<close>: a real, or \<open>NonFinite\<close> for NaN or Infinity, which
  stepMoisture returns for a time lag of zero and runModel carries on with.
\<close>

datatype moisture = Finite real | NonFinite














subsection \<open>calculateDryingPattern\<close>








section \<open>The base library (fuel-moisture-calculator)\<close>

text \<open>
  \<^verbatim>\<open>parseFloat(x.toFixed(2))\<close>: two decimals, a tie rounded away from zero. The
  library's stepMoisture, the function that the integration module's one follows, checks
  the time lag before it divides.
\<close>

definition toFixed2 :: "real \<Rightarrow> real" where
  "toFixed2 x =
     (if x < 0 then - (real_of_int \<lfloor>- x * 100 + 1 / 2\<rfloor> / 100)
      else real_of_int \<lfloor>x * 100 + 1 / 2\<rfloor> / 100)"

definition stepMoisture_lib :: "jsval \<Rightarrow> jsval \<Rightarrow> jsval \<Rightarrow> jsval \<Rightarrow> js_error + real" where
  "stepMoisture_lib currentMoisture emc hours timelag =
     (case (typeofNumber currentMoisture, typeofNumber emc,
            typeofNumber hours, typeofNumber timelag) of
        (Some c, Some e, Some h, Some lag) \<Rightarrow>
          if lag \<le> 0 then Inl (Error ''Timelag must be greater than 0'')
          else
            let k = 1 / lag;
                difference = c - e;
                newMoisture = e + difference * exp (- k * h)
            in Inr (toFixed2 newMoisture)
      | _ \<Rightarrow> Inl (Error ''Invalid input: all parameters must be numbers''))"

section \<open>fire-behavior.js\<close>

subsection \<open>The fuel table\<close>

record fuel =
  name :: string
  load :: real
  savRatio :: real
  depth :: real
  moistureExt :: real
  heatContent :: real

definition FUEL_MODELS :: "(string \<times> fuel) list" where
  "FUEL_MODELS =
    [
     (''1'', \<lparr>name = ''Short Grass (1 ft)'', load = 0.74, savRatio = 3500, depth = 1.0,
            moistureExt = 12, heatContent = 8000\<rparr>),
     (''2'', \<lparr>name = ''Timber Grass/Understory (1 ft)'', load = 2.0, savRatio = 3000, depth = 1.0,
            moistureExt = 15, heatContent = 8000\<rparr>),
     (''3'', \<lparr>name = ''Tall Grass (2.5 ft)'', load = 3.01, savRatio = 1500, depth = 2.5,
            moistureExt = 25, heatContent = 8000\<rparr>),
     (''4'', \<lparr>name = ''Chaparral (6 ft)'', load = 5.01, savRatio = 2000, depth = 6.0,
            moistureExt = 20, heatContent = 8000\<rparr>),
     (''5'', \<lparr>name = ''Brush (2 ft)'', load = 1.0, savRatio = 2000, depth = 2.0,
            moistureExt = 20, heatContent = 8000\<rparr>),
     (''6'', \<lparr>name = ''Dormant Brush/Hardwood Slash'', load = 1.5, savRatio = 1750, depth = 2.5,
            moistureExt = 25, heatContent = 8000\<rparr>),
     (''7'', \<lparr>name = ''Southern Rough'', load = 1.13, savRatio = 1550, depth = 2.5,
            moistureExt = 40, heatContent = 8000\<rparr>),
     (''8'', \<lparr>name = ''Closed Timber Litter'', load = 1.5, savRatio = 2000, depth = 0.2,
            moistureExt = 30, heatContent = 8000\<rparr>),
     (''9'', \<lparr>name = ''Hardwood Litter'', load = 2.92, savRatio = 2500, depth = 0.2,
            moistureExt = 25, heatContent = 8000\<rparr>),
     (''10'', \<lparr>name = ''Timber Litter/Understory'', load = 3.01, savRatio = 2000, depth = 1.0,
            moistureExt = 25, heatContent = 8000\<rparr>)
    ]"

text \<open>
  \<^verbatim>\<open>FUEL_MODELS[fuelModel]\<close> reads a property of an object literal, so a key that the
  table does not have is still looked up in \<^verbatim>\<open>Object.prototype\<close>. The names found
  there give a function or an object: a truthy value with none of the fuel properties.
\<close>

definition objectPrototypeKeys :: "string list" where
  "objectPrototypeKeys =
    [''constructor'', ''hasOwnProperty'', ''isPrototypeOf'', ''propertyIsEnumerable'',
     ''toLocaleString'', ''toString'', ''valueOf'', ''__proto__'',
     ''__defineGetter__'', ''__defineSetter__'', ''__lookupGetter__'', ''__lookupSetter__'']"

datatype fuel_lookup =
    Own fuel      \<comment> \<open>an entry of the table\<close>
  | Inherited     \<comment> \<open>a member of \<^verbatim>\<open>Object.prototype\<close>\<close>
  | Absent        \<comment> \<open>\<^verbatim>\<open>undefined\<close>\<close>

definition lookupFuel :: "string \<Rightarrow> fuel_lookup" where
  "lookupFuel fuelModel =
     (case map_of FUEL_MODELS fuelModel of
        Some f \<Rightarrow> Own f
      | None \<Rightarrow> if fuelModel \<in> set objectPrototypeKeys then Inherited else Absent)"

subsection \<open>calculateRateOfSpread\<close>

text \<open>
  The returned object. On the branch that cannot spread it has only \<^verbatim>\<open>ros\<close>,
  \<^verbatim>\<open>rosMetric\<close> and \<^verbatim>\<open>canSpread\<close>: the other two fields are \<open>None\<close> there.
\<close>

record spread_result =
  ros :: real
  rosMetric :: real
  rosFtPerMin :: "real option"
  canSpread :: bool
  reactionIntensity :: "real option"

text \<open>
  \<^verbatim>\<open>Math.pow\<close> with exponent 2 or 3 is a power; with a fractional exponent it is
  \<^const>\<open>powr\<close>, on a positive base. With an inherited key every fuel property is
  \<^verbatim>\<open>undefined\<close> and the arithmetic gives NaN; the real tangent has no value where the
  cosine is zero. The fuel model is always given here; the source has '2' for one that
  is not.
\<close>

definition calculateRateOfSpread ::
    "real \<Rightarrow> real \<Rightarrow> real \<Rightarrow> string \<Rightarrow> js_error + spread_result" where
  "calculateRateOfSpread windSpeed fuelMoisture slope fuelModel =
     (case lookupFuel fuelModel of
        Absent \<Rightarrow> Inl (Error ''Invalid fuel model'')
      | Inherited \<Rightarrow> Inl NotReal
      | Own fuel \<Rightarrow>
          if fuelMoisture \<ge> moistureExt fuel
          then Inr \<lparr>ros = 0, rosMetric = 0, rosFtPerMin = None, canSpread = False,
                    reactionIntensity = None\<rparr>
          else if cos (slope * pi / 180) = 0 then Inl NotReal
          else
            let moistureDamping = 1 - (2.59 * (fuelMoisture / moistureExt fuel))
                                    + (5.11 * (fuelMoisture / moistureExt fuel) ^ 2)
                                    - (3.52 * (fuelMoisture / moistureExt fuel) ^ 3);
                reactionIntensity = (load fuel * heatContent fuel * moistureDamping) / 60;
                sigma = savRatio fuel;
                propagatingFlux = exp ((0.792 + 0.681 * sqrt sigma) * (0.1 + depth fuel));
                windCoeff = (if windSpeed > 0
                             then (windSpeed powr 0.5) * (sigma powr (- 0.5)) * 0.4 else 0);
                slopePercent = tan (slope * pi / 180) * 100;
                slopeCoeff = (if slopePercent > 0
                              then 5.275 * (sigma powr (- 0.3)) * (slopePercent / 100) ^ 2
                              else 0);
                rosBase = (reactionIntensity * propagatingFlux) / (load fuel * 0.01);
                rosFtPerMin = rosBase * (1 + windCoeff + slopeCoeff);
                rosChainsPerHour = (rosFtPerMin * 60) / 66;
                rosMetersPerMin = rosFtPerMin * 0.3048
            in Inr \<lparr>ros = rosChainsPerHour, rosMetric = rosMetersPerMin,
                      rosFtPerMin = Some rosFtPerMin, canSpread = True,
                      reactionIntensity = Some reactionIntensity\<rparr>)"

subsection \<open>calculateFlameLength and calculateFirelineIntensity\<close>

record flame_result =
  flameLengthFt :: real
  flameLengthM :: real

text \<open>\<^verbatim>\<open>Math.pow(intensity, 0.46)\<close> is NaN for a negative intensity.\<close>

definition calculateFlameLength :: "real \<Rightarrow> js_error + flame_result" where
  "calculateFlameLength intensity =
     (if intensity < 0 then Inl NotReal
      else
        let flameLengthFt = 0.45 * (intensity powr 0.46);
            flameLengthM = flameLengthFt * 0.3048
        in Inr \<lparr>flameLengthFt = flameLengthFt, flameLengthM = flameLengthM\<rparr>)"

text \<open>The heat content is always given here; the source has 8000 for one that is not.\<close>

definition calculateFirelineIntensity :: "real \<Rightarrow> real \<Rightarrow> real \<Rightarrow> real" where
  "calculateFirelineIntensity rate fuelLoad heat =
     (let fuelLoadLbPerFt2 = (fuelLoad * 2000) / 43560;
          intensity = (heat * fuelLoadLbPerFt2 * rate) / 60
      in intensity)"

subsection \<open>predictFireBehavior\<close>

text \<open>The argument object: \<open>None\<close> is a property that is not there, and takes the default.\<close>

record params =
  p_windSpeed :: "real option"
  p_fuelMoisture :: "real option"
  p_slope :: "real option"
  p_fuelModel :: "string option"
  p_temp :: "real option"
  p_rh :: "real option"
  p_useEMC :: "bool option"

record rate_of_spread =
  chainsPerHour :: real
  metersPerMin :: real
  feetPerMin :: real

record flame_length =
  feet :: real
  meters :: real

record conditions =
  c_windSpeed :: real
  c_fuelMoisture :: real
  c_slope :: real
  c_temp :: real
  c_rh :: real

text \<open>
  The three shapes of the returned object. \<open>InvalidModel\<close> is \<^verbatim>\<open>{ error: ... }\<close>.
  \<open>NoSpread\<close> is the object with \<^verbatim>\<open>canSpread: false\<close>: a message, the fuel's name and
  \<^verbatim>\<open>emc\<close>, which is there always and is \<^verbatim>\<open>null\<close> (\<open>None\<close>) when no EMC was computed.
  \<open>Behaviour\<close> is the object with \<^verbatim>\<open>canSpread: true\<close>: its \<^verbatim>\<open>emc\<close> is set only when an
  EMC was computed, and \<open>None\<close> is the field not being there.
\<close>

record no_spread =
  ns_message :: string
  ns_fuelModel :: string
  ns_emc :: "real option"

record behaviour =
  b_fuelModel :: string
  rateOfSpread :: rate_of_spread
  flameLength :: flame_length
  firelineIntensity :: real
  b_conditions :: conditions
  b_emc :: "real option"

datatype prediction =
    InvalidModel string
  | NoSpread no_spread
  | Behaviour behaviour

text \<open>
  Lines 230 to 240: \<^verbatim>\<open>calculatedEMC\<close> and \<^verbatim>\<open>effectiveMoisture\<close>. The guard
  \<^verbatim>\<open>useEMC && temp && rh\<close> is a test of truthiness, and a number is truthy unless it
  is zero. The first argument is the module that \<^verbatim>\<open>require\<close> or \<^verbatim>\<open>window\<close> gave:
  its \<^verbatim>\<open>computeEMC\<close>, or \<open>None\<close> when there is none.
\<close>

definition emcBranch ::
    "(jsval \<Rightarrow> jsval \<Rightarrow> js_error + real) option \<Rightarrow> bool \<Rightarrow> real \<Rightarrow> real \<Rightarrow> real
      \<Rightarrow> js_error + (real option \<times> real)" where
  "emcBranch fuelMoistureCalc useEMC temp rh fuelMoisture =
     (if useEMC \<and> temp \<noteq> 0 \<and> rh \<noteq> 0 then
        (case fuelMoistureCalc of
           Some calc \<Rightarrow>
             (case calc (JNum temp) (JNum rh) of
                Inl e \<Rightarrow> Inl e
              | Inr calculatedEMC \<Rightarrow> Inr (Some calculatedEMC, calculatedEMC))
         | None \<Rightarrow> Inr (None, fuelMoisture))
      else Inr (None, fuelMoisture))"

definition withDefault :: "'a option \<Rightarrow> 'a \<Rightarrow> 'a" where
  "withDefault v d = (case v of None \<Rightarrow> d | Some x \<Rightarrow> x)"

definition predictFireBehavior ::
    "(jsval \<Rightarrow> jsval \<Rightarrow> js_error + real) option \<Rightarrow> params \<Rightarrow> js_error + prediction" where
  "predictFireBehavior fuelMoistureCalc ps =
     (let windSpeed = withDefault (p_windSpeed ps) 0;
          fuelMoisture = withDefault (p_fuelMoisture ps) 10;
          slope = withDefault (p_slope ps) 0;
          fuelModel = withDefault (p_fuelModel ps) ''2'';
          temp = withDefault (p_temp ps) 70;
          rh = withDefault (p_rh ps) 30;
          useEMC = withDefault (p_useEMC ps) False
      in
        case lookupFuel fuelModel of
          Absent \<Rightarrow> Inr (InvalidModel ''Invalid fuel model'')
        | Inherited \<Rightarrow>
            (case emcBranch fuelMoistureCalc useEMC temp rh fuelMoisture of
               Inl e \<Rightarrow> Inl e
             | Inr _ \<Rightarrow> Inl NotReal)
        | Own fuel \<Rightarrow>
            (case emcBranch fuelMoistureCalc useEMC temp rh fuelMoisture of
               Inl e \<Rightarrow> Inl e
             | Inr (calculatedEMC, effectiveMoisture) \<Rightarrow>
                 (case calculateRateOfSpread windSpeed effectiveMoisture slope fuelModel of
                    Inl e \<Rightarrow> Inl e
                  | Inr spreadResult \<Rightarrow>
                      if \<not> canSpread spreadResult
                      then Inr (NoSpread
                             \<lparr>ns_message =
                                ''Fuel moisture exceeds extinction moisture. Fire will not spread.'',
                              ns_fuelModel = name fuel,
                              ns_emc = calculatedEMC\<rparr>)
                      else
                        (case rosFtPerMin spreadResult of
                           None \<Rightarrow> Inl NotReal
                         | Some ftPerMin \<Rightarrow>
                             let intensity = calculateFirelineIntensity ftPerMin
                                               (load fuel) (heatContent fuel)
                             in
                               (case calculateFlameLength intensity of
                                  Inl e \<Rightarrow> Inl e
                                | Inr flameResult \<Rightarrow>
                                    Inr (Behaviour
                                      \<lparr>b_fuelModel = name fuel,
                                       rateOfSpread =
                                         \<lparr>chainsPerHour = round2 (ros spreadResult),
                                          metersPerMin = round2 (rosMetric spreadResult),
                                          feetPerMin = round2 ftPerMin\<rparr>,
                                       flameLength =
                                         \<lparr>feet = round1 (flameLengthFt flameResult),
                                          meters = round1 (flameLengthM flameResult)\<rparr>,
                                       firelineIntensity = real_of_int (round intensity),
                                       b_conditions =
                                         \<lparr>c_windSpeed = windSpeed,
                                          c_fuelMoisture = effectiveMoisture,
                                          c_slope = slope, c_temp = temp, c_rh = rh\<rparr>,
                                       b_emc = map_option round1 calculatedEMC\<rparr>))))))"

text \<open>
  Reading \<^verbatim>\<open>result.canSpread\<close>, which the error object does not have, and reading
  \<^verbatim>\<open>result.emc\<close> as a number: \<open>None\<close> when the field is \<^verbatim>\<open>null\<close> or is not there,
  or when there is no result.
\<close>

definition reportedCanSpread :: "js_error + prediction \<Rightarrow> bool option" where
  "reportedCanSpread result =
     (case result of
        Inr (Behaviour b) \<Rightarrow> Some True
      | Inr (NoSpread n) \<Rightarrow> Some False
      | _ \<Rightarrow> None)"

definition reportedEMC :: "js_error + prediction \<Rightarrow> real option" where
  "reportedEMC result =
     (case result of
        Inr (Behaviour b) \<Rightarrow> b_emc b
      | Inr (NoSpread n) \<Rightarrow> ns_emc n
      | _ \<Rightarrow> None)"

section \<open>Properties of computeEMC and stepMoisture\<close>

lemma computeEMC_num:
  "computeEMC (JNum t) (JNum h) =
     (if h < 0 \<or> h > 100
      then Inl (Error ''Relative humidity must be between 0 and 100'')
      else Inr (max 0.1 (min 40
             (if h \<le> 10 then max 0.1 (0.03 + (0.2626 * h) - (0.00104 * h * t))
              else if h \<le> 50 then 1.5 + (0.15 * h) - (0.01 * t / 10)
              else 6 + (0.25 * (h - 50)) + (0.02 * (100 - t) / 10)))))"
  by (simp add: computeEMC_def Let_def)

lemma stepMoisture_num:
  "stepMoisture (JNum c) (JNum e) (JNum h) (JNum lag) =
     (if lag = 0 then
        (if 0 < h then Inr (max 0 e) else if h < 0 \<and> c < e then Inr 0 else Inl NotReal)
      else Inr (max 0 (e + (c - e) * exp (- (h / lag)))))"
  by (simp add: stepMoisture_def Let_def)

text \<open>
  C2. For every real temperature and every relative humidity in [0, 100], computeEMC
  returns a value, and the value lies in the closed interval [0.1, 40].
\<close>

theorem computeEMC_bounds:
  assumes "0 \<le> h" and "h \<le> 100"
  shows "\<exists>v. computeEMC (JNum t) (JNum h) = Inr v \<and> 0.1 \<le> v \<and> v \<le> 40"
  using assms by (simp add: computeEMC_num)

theorem computeEMC_bounds_witness:
  "(0::real) \<le> 25 \<and> (25::real) \<le> 100 \<and>
   (\<exists>v. computeEMC (JNum 85) (JNum 25) = Inr v \<and> 0.1 \<le> v \<and> v \<le> 40)"
  using computeEMC_bounds [of 25 85] by simp

text \<open>
  C3. For real current moisture, equilibrium moisture and elapsed hours, and a real time
  lag greater than zero, stepMoisture returns
  max(0, emc + (current - emc) * exp(-elapsedHours / timeLagHours)).
\<close>

theorem stepMoisture_formula:
  assumes "0 < lag"
  shows "stepMoisture (JNum c) (JNum e) (JNum h) (JNum lag) =
           Inr (max 0 (e + (c - e) * exp (- h / lag)))"
  using assms by (simp add: stepMoisture_num)

theorem stepMoisture_formula_witness:
  "(0::real) < 1 \<and>
   stepMoisture (JNum 10) (JNum 10) (JNum 6) (JNum 1) = Inr (max 0 (10 + (10 - 10) * exp (- 6 / 1)))"
  using stepMoisture_formula [of 1 10 10 6] by simp

text \<open>
  C4. With numeric arguments, computeEMC throws the error with the message
  "Relative humidity must be between 0 and 100" exactly when the relative humidity is
  below 0 or above 100; for a relative humidity in [0, 100] it returns a value.
\<close>

theorem computeEMC_range_error:
  "((h < 0 \<or> h > 100) \<longrightarrow>
      computeEMC (JNum t) (JNum h) = Inl (Error ''Relative humidity must be between 0 and 100''))
   \<and> ((0 \<le> h \<and> h \<le> 100) \<longrightarrow> (\<exists>v. computeEMC (JNum t) (JNum h) = Inr v))"
  by (simp add: computeEMC_num)

theorem computeEMC_range_error_witness:
  "((150::real) < 0 \<or> (150::real) > 100) \<and>
   computeEMC (JNum 70) (JNum 150) = Inl (Error ''Relative humidity must be between 0 and 100'')
   \<and> ((0::real) \<le> 100 \<and> (100::real) \<le> 100) \<and> (\<exists>v. computeEMC (JNum 70) (JNum 100) = Inr v)"
  using computeEMC_range_error [of 150 70] computeEMC_range_error [of 100 70] by simp

text \<open>
  C5. stepMoisture of fuel-moisture-integration.js has no check of the time lag: with the
  time lag -1 it returns a number, here emc + (current - emc) * e, where the claim asks
  for an error. The library's stepMoisture has the check (\<open>stepMoisture_lib_rejects\<close>
  below).
\<close>

theorem stepMoisture_negative_timeLag_returns:
  "stepMoisture (JNum 10) (JNum 5) (JNum 1) (JNum (- 1)) = Inr (5 + 5 * exp 1)"
proof -
  have "(0::real) \<le> 5 + 5 * exp 1"
    by (intro add_nonneg_nonneg) simp_all
  then show ?thesis
    by (simp add: stepMoisture_num max_def)
qed

section \<open>Properties of the spread model\<close>

text \<open>Every entry of the fuel table has positive properties.\<close>

lemma table_fuel_pos:
  assumes "lookupFuel k = Own f"
  shows "0 < load f \<and> 0 < heatContent f \<and> 0 < moistureExt f \<and> 0 < savRatio f \<and> 0 < depth f"
  using assms
  by (auto simp: lookupFuel_def FUEL_MODELS_def split: if_splits option.splits)

text \<open>
  The moisture damping polynomial is (1 - r) times a quadratic without real roots, so it
  is positive below the moisture of extinction.
\<close>

lemma damping_factor:
  fixes r :: real
  shows "1 - (2.59 * r) + (5.11 * r ^ 2) - (3.52 * r ^ 3) = (1 - r) * (1 - 1.59 * r + 3.52 * r ^ 2)"
  by (simp add: field_simps power2_eq_square power3_eq_cube)

lemma quad_pos:
  fixes r :: real
  shows "0 < 1 - 1.59 * r + 3.52 * r ^ 2"
proof -
  have "1 - 1.59 * r + 3.52 * r ^ 2 = 3.52 * (r - 159/704) ^ 2 + (1 - 3.52 * (159/704) ^ 2)"
    by (simp add: field_simps power2_eq_square)
  moreover have "0 \<le> 3.52 * (r - 159/704) ^ 2" by simp
  moreover have "(0::real) < 1 - 3.52 * (159/704) ^ 2" by (simp add: power2_eq_square)
  ultimately show ?thesis by linarith
qed

lemma damping_pos:
  fixes r :: real
  assumes "r < 1"
  shows "0 < 1 - (2.59 * r) + (5.11 * r ^ 2) - (3.52 * r ^ 3)"
  unfolding damping_factor using assms quad_pos [of r] by simp

lemma spread_rate_pos:
  assumes "lookupFuel fm = Own fuel" and "m < moistureExt fuel" and "cos (sl * pi / 180) \<noteq> 0"
  shows "\<exists>sr r. calculateRateOfSpread ws m sl fm = Inr sr \<and> canSpread sr
                 \<and> rosFtPerMin sr = Some r \<and> 0 < r"
proof -
  have pos: "0 < load fuel" "0 < heatContent fuel" "0 < moistureExt fuel"
    using table_fuel_pos [OF assms(1)] by simp_all
  have "m / moistureExt fuel < 1"
    using assms(2) pos by simp
  then have damp: "0 < 1 - (2.59 * (m / moistureExt fuel)) + (5.11 * (m / moistureExt fuel) ^ 2)
                        - (3.52 * (m / moistureExt fuel) ^ 3)"
    by (rule damping_pos)
  define ri where "ri = (load fuel * heatContent fuel *
       (1 - (2.59 * (m / moistureExt fuel)) + (5.11 * (m / moistureExt fuel) ^ 2)
          - (3.52 * (m / moistureExt fuel) ^ 3))) / 60"
  have ri: "0 < ri"
    unfolding ri_def using pos damp by simp
  define base where "base = (ri * exp ((0.792 + 0.681 * sqrt (savRatio fuel)) * (0.1 + depth fuel)))
                               / (load fuel * 0.01)"
  have base: "0 < base"
    unfolding base_def using ri pos by simp
  define wc where "wc = (if ws > 0 then (ws powr 0.5) * (savRatio fuel powr (- 0.5)) * 0.4 else 0)"
  have wc: "0 \<le> wc"
    unfolding wc_def by simp
  define sc where "sc = (if tan (sl * pi / 180) * 100 > 0
                         then 5.275 * (savRatio fuel powr (- 0.3)) * (tan (sl * pi / 180) * 100 / 100) ^ 2
                         else 0)"
  have sc: "0 \<le> sc"
    unfolding sc_def by simp
  have rate: "0 < base * (1 + wc + sc)"
    using base wc sc by (simp add: add_pos_nonneg)
  have "calculateRateOfSpread ws m sl fm =
          Inr \<lparr>ros = (base * (1 + wc + sc) * 60) / 66, rosMetric = base * (1 + wc + sc) * 0.3048,
               rosFtPerMin = Some (base * (1 + wc + sc)), canSpread = True,
               reactionIntensity = Some ri\<rparr>"
    unfolding calculateRateOfSpread_def Let_def base_def wc_def sc_def ri_def
    using assms by simp
  with rate show ?thesis by simp
qed


lemma predict_spreads:
  assumes own: "lookupFuel (withDefault (p_fuelModel ps) ''2'') = Own fuel"
    and emc: "emcBranch calc (withDefault (p_useEMC ps) False) (withDefault (p_temp ps) 70)
                (withDefault (p_rh ps) 30) (withDefault (p_fuelMoisture ps) 10) = Inr (cemc, m)"
    and dry: "m < moistureExt fuel"
    and slope: "cos (withDefault (p_slope ps) 0 * pi / 180) \<noteq> 0"
  shows "\<exists>sr ft fl.
           calculateRateOfSpread (withDefault (p_windSpeed ps) 0) m (withDefault (p_slope ps) 0)
             (withDefault (p_fuelModel ps) ''2'') = Inr sr
           \<and> rosFtPerMin sr = Some ft
           \<and> predictFireBehavior calc ps =
               Inr (Behaviour
                 \<lparr>b_fuelModel = name fuel,
                  rateOfSpread = \<lparr>chainsPerHour = round2 (ros sr),
                                  metersPerMin = round2 (rosMetric sr),
                                  feetPerMin = round2 ft\<rparr>,
                  flameLength = fl,
                  firelineIntensity =
                    real_of_int (round (calculateFirelineIntensity ft (load fuel) (heatContent fuel))),
                  b_conditions = \<lparr>c_windSpeed = withDefault (p_windSpeed ps) 0,
                                  c_fuelMoisture = m,
                                  c_slope = withDefault (p_slope ps) 0,
                                  c_temp = withDefault (p_temp ps) 70,
                                  c_rh = withDefault (p_rh ps) 30\<rparr>,
                  b_emc = map_option round1 cemc\<rparr>)"
proof -
  obtain sr ft where sr: "calculateRateOfSpread (withDefault (p_windSpeed ps) 0) m
        (withDefault (p_slope ps) 0) (withDefault (p_fuelModel ps) ''2'') = Inr sr"
      and can: "canSpread sr" and ft: "rosFtPerMin sr = Some ft" and pos: "0 < ft"
    using spread_rate_pos [OF own dry slope] by blast
  have fuelpos: "0 < load fuel" "0 < heatContent fuel"
    using table_fuel_pos [OF own] by simp_all
  have "0 < calculateFirelineIntensity ft (load fuel) (heatContent fuel)"
    using pos fuelpos by (simp add: calculateFirelineIntensity_def Let_def)
  then obtain fl where fl: "calculateFlameLength
        (calculateFirelineIntensity ft (load fuel) (heatContent fuel)) = Inr fl"
    by (simp add: calculateFlameLength_def Let_def)
  have "predictFireBehavior calc ps =
               Inr (Behaviour
                 \<lparr>b_fuelModel = name fuel,
                  rateOfSpread = \<lparr>chainsPerHour = round2 (ros sr),
                                  metersPerMin = round2 (rosMetric sr),
                                  feetPerMin = round2 ft\<rparr>,
                  flameLength = \<lparr>feet = round1 (flameLengthFt fl),
                                 meters = round1 (flameLengthM fl)\<rparr>,
                  firelineIntensity =
                    real_of_int (round (calculateFirelineIntensity ft (load fuel) (heatContent fuel))),
                  b_conditions = \<lparr>c_windSpeed = withDefault (p_windSpeed ps) 0,
                                  c_fuelMoisture = m,
                                  c_slope = withDefault (p_slope ps) 0,
                                  c_temp = withDefault (p_temp ps) 70,
                                  c_rh = withDefault (p_rh ps) 30\<rparr>,
                  b_emc = map_option round1 cemc\<rparr>)"
    unfolding predictFireBehavior_def Let_def
    by (simp add: own emc sr can ft fl)
  with sr ft show ?thesis by blast
qed

lemma withDefault_Some: "withDefault (Some x) d = x"
  by (simp add: withDefault_def)

lemma withDefault_None: "withDefault None d = d"
  by (simp add: withDefault_def)

lemma lookup_timber_grass:
  "lookupFuel ''2'' = Own \<lparr>name = ''Timber Grass/Understory (1 ft)'', load = 2.0,
       savRatio = 3000, depth = 1.0, moistureExt = 15, heatContent = 8000\<rparr>"
  by (simp add: lookupFuel_def FUEL_MODELS_def)

text \<open>
  C1, amended. For a fuel model of the table and a fuel moisture at or above its moisture
  of extinction, calculateRateOfSpread returns canSpread = false with ros = 0 and
  rosMetric = 0 and no other rate. predictFireBehavior returns the result with
  canSpread = false, which has a message, the fuel name and the EMC and no rate of
  spread, fireline intensity or flame length, when the effective moisture is at or above
  the moisture of extinction: the EMC when it was computed, and the given fuel moisture
  otherwise, as whenever useEMC is false or not given.
\<close>

theorem no_spread_at_extinction:
  assumes "lookupFuel fuelModel = Own fuel"
    and "moistureExt fuel \<le> fuelMoisture"
  shows "calculateRateOfSpread windSpeed fuelMoisture slope fuelModel =
           Inr \<lparr>ros = 0, rosMetric = 0, rosFtPerMin = None, canSpread = False,
                reactionIntensity = None\<rparr>
       \<and> (withDefault (p_fuelModel ps) ''2'' = fuelModel \<and>
          emcBranch calc (withDefault (p_useEMC ps) False) (withDefault (p_temp ps) 70)
            (withDefault (p_rh ps) 30) (withDefault (p_fuelMoisture ps) 10)
              = Inr (calculatedEMC, fuelMoisture)
          \<longrightarrow> predictFireBehavior calc ps =
                Inr (NoSpread
                  \<lparr>ns_message = ''Fuel moisture exceeds extinction moisture. Fire will not spread.'',
                   ns_fuelModel = name fuel,
                   ns_emc = calculatedEMC\<rparr>))
       \<and> (withDefault (p_fuelModel qs) ''2'' = fuelModel \<and>
          withDefault (p_useEMC qs) False = False \<and>
          withDefault (p_fuelMoisture qs) 10 = fuelMoisture
          \<longrightarrow> predictFireBehavior calc qs =
                Inr (NoSpread
                  \<lparr>ns_message = ''Fuel moisture exceeds extinction moisture. Fire will not spread.'',
                   ns_fuelModel = name fuel,
                   ns_emc = None\<rparr>))
       \<and> (withDefault (p_fuelModel rs) ''2'' = fuelModel \<and>
          withDefault (p_useEMC rs) False = True \<and>
          withDefault (p_temp rs) 70 \<noteq> 0 \<and> withDefault (p_rh rs) 30 \<noteq> 0 \<and>
          emcOf (JNum (withDefault (p_temp rs) 70)) (JNum (withDefault (p_rh rs) 30))
            = Inr fuelMoisture
          \<longrightarrow> predictFireBehavior (Some emcOf) rs =
                Inr (NoSpread
                  \<lparr>ns_message = ''Fuel moisture exceeds extinction moisture. Fire will not spread.'',
                   ns_fuelModel = name fuel,
                   ns_emc = Some fuelMoisture\<rparr>))"
proof -
  have sr: "calculateRateOfSpread w fuelMoisture s fuelModel =
           Inr \<lparr>ros = 0, rosMetric = 0, rosFtPerMin = None, canSpread = False,
                reactionIntensity = None\<rparr>" for w s
    using assms by (simp add: calculateRateOfSpread_def)
  have general: "predictFireBehavior calc xs =
                Inr (NoSpread
                  \<lparr>ns_message = ''Fuel moisture exceeds extinction moisture. Fire will not spread.'',
                   ns_fuelModel = name fuel,
                   ns_emc = cemc\<rparr>)"
    if "withDefault (p_fuelModel xs) ''2'' = fuelModel"
      and "emcBranch calc (withDefault (p_useEMC xs) False) (withDefault (p_temp xs) 70)
            (withDefault (p_rh xs) 30) (withDefault (p_fuelMoisture xs) 10)
              = Inr (cemc, fuelMoisture)"
    for xs :: params and cemc and calc
    unfolding predictFireBehavior_def Let_def
    using assms(1) that by (simp add: sr)
  have manual: "emcBranch calc (withDefault (p_useEMC qs) False) (withDefault (p_temp qs) 70)
            (withDefault (p_rh qs) 30) (withDefault (p_fuelMoisture qs) 10)
              = Inr (None, fuelMoisture)"
    if "withDefault (p_useEMC qs) False = False"
      and "withDefault (p_fuelMoisture qs) 10 = fuelMoisture"
    using that by (simp add: emcBranch_def)
  have computed: "emcBranch (Some emcOf) (withDefault (p_useEMC rs) False)
            (withDefault (p_temp rs) 70) (withDefault (p_rh rs) 30)
            (withDefault (p_fuelMoisture rs) 10)
              = Inr (Some fuelMoisture, fuelMoisture)"
    if "withDefault (p_useEMC rs) False = True"
      and "withDefault (p_temp rs) 70 \<noteq> 0" and "withDefault (p_rh rs) 30 \<noteq> 0"
      and "emcOf (JNum (withDefault (p_temp rs) 70)) (JNum (withDefault (p_rh rs) 30))
            = Inr fuelMoisture"
    using that by (simp add: emcBranch_def)
  have whenComputed: "predictFireBehavior (Some emcOf) rs =
                Inr (NoSpread
                  \<lparr>ns_message = ''Fuel moisture exceeds extinction moisture. Fire will not spread.'',
                   ns_fuelModel = name fuel,
                   ns_emc = Some fuelMoisture\<rparr>)"
    if "withDefault (p_fuelModel rs) ''2'' = fuelModel \<and>
          withDefault (p_useEMC rs) False = True \<and>
          withDefault (p_temp rs) 70 \<noteq> 0 \<and> withDefault (p_rh rs) 30 \<noteq> 0 \<and>
          emcOf (JNum (withDefault (p_temp rs) 70)) (JNum (withDefault (p_rh rs) 30))
            = Inr fuelMoisture"
    using that general [of rs "Some emcOf" "Some fuelMoisture"] computed by blast
  have whenManual: "predictFireBehavior calc qs =
                Inr (NoSpread
                  \<lparr>ns_message = ''Fuel moisture exceeds extinction moisture. Fire will not spread.'',
                   ns_fuelModel = name fuel,
                   ns_emc = None\<rparr>)"
    if "withDefault (p_fuelModel qs) ''2'' = fuelModel \<and>
          withDefault (p_useEMC qs) False = False \<and>
          withDefault (p_fuelMoisture qs) 10 = fuelMoisture"
    using that general [of qs calc None] manual by blast
  have whenEffective: "predictFireBehavior calc ps =
                Inr (NoSpread
                  \<lparr>ns_message = ''Fuel moisture exceeds extinction moisture. Fire will not spread.'',
                   ns_fuelModel = name fuel,
                   ns_emc = calculatedEMC\<rparr>)"
    if "withDefault (p_fuelModel ps) ''2'' = fuelModel \<and>
          emcBranch calc (withDefault (p_useEMC ps) False) (withDefault (p_temp ps) 70)
            (withDefault (p_rh ps) 30) (withDefault (p_fuelMoisture ps) 10)
              = Inr (calculatedEMC, fuelMoisture)"
    using that general [of ps calc calculatedEMC] by blast
  from sr whenEffective whenManual whenComputed show ?thesis
    by blast
qed

theorem no_spread_at_extinction_witness:
  "lookupFuel ''2'' = Own \<lparr>name = ''Timber Grass/Understory (1 ft)'', load = 2.0,
       savRatio = 3000, depth = 1.0, moistureExt = 15, heatContent = 8000\<rparr>
   \<and> (15::real) \<le> 30
   \<and> calculateRateOfSpread 10 30 0 ''2'' =
        Inr \<lparr>ros = 0, rosMetric = 0, rosFtPerMin = None, canSpread = False,
             reactionIntensity = None\<rparr>
   \<and> predictFireBehavior (Some computeEMC)
        \<lparr>p_windSpeed = Some 10, p_fuelMoisture = Some 30, p_slope = Some 0,
         p_fuelModel = Some ''2'', p_temp = Some 70, p_rh = Some 80, p_useEMC = None\<rparr> =
        Inr (NoSpread
          \<lparr>ns_message = ''Fuel moisture exceeds extinction moisture. Fire will not spread.'',
           ns_fuelModel = ''Timber Grass/Understory (1 ft)'',
           ns_emc = None\<rparr>)
   \<and> (15::real) \<le> 929 / 50
   \<and> computeEMC (JNum 60) (JNum 100) = Inr (929 / 50)
   \<and> emcBranch (Some computeEMC) True 60 100 10 = Inr (Some (929 / 50), 929 / 50)
   \<and> predictFireBehavior (Some computeEMC)
        \<lparr>p_windSpeed = None, p_fuelMoisture = None, p_slope = None,
         p_fuelModel = None, p_temp = Some 60, p_rh = Some 100, p_useEMC = Some True\<rparr> =
        Inr (NoSpread
          \<lparr>ns_message = ''Fuel moisture exceeds extinction moisture. Fire will not spread.'',
           ns_fuelModel = ''Timber Grass/Understory (1 ft)'',
           ns_emc = Some (929 / 50)\<rparr>)"
proof -
  let ?manual = "\<lparr>p_windSpeed = Some 10, p_fuelMoisture = Some 30, p_slope = Some 0,
         p_fuelModel = Some ''2'', p_temp = Some 70, p_rh = Some 80, p_useEMC = None\<rparr>"
  let ?auto = "\<lparr>p_windSpeed = None, p_fuelMoisture = None, p_slope = None,
         p_fuelModel = None, p_temp = Some 60, p_rh = Some 100, p_useEMC = Some True\<rparr>"
  note l = lookup_timber_grass
  have wet: "moistureExt \<lparr>name = ''Timber Grass/Understory (1 ft)'', load = 2.0,
       savRatio = 3000, depth = 1.0, moistureExt = 15, heatContent = 8000\<rparr> \<le> 30"
    by simp
  have damp: "moistureExt \<lparr>name = ''Timber Grass/Understory (1 ft)'', load = 2.0,
       savRatio = 3000, depth = 1.0, moistureExt = 15, heatContent = 8000\<rparr> \<le> 929 / 50"
    by simp
  have e: "emcBranch (Some computeEMC) True 60 100 10 = Inr (Some (929 / 50), 929 / 50)"
    by (simp add: emcBranch_def computeEMC_num)
  note a = no_spread_at_extinction [OF l wet, where windSpeed = 10 and slope = 0
             and qs = ?manual and calc = "Some computeEMC"]
  note b = no_spread_at_extinction [OF l damp, where ps = ?auto and calc = "Some computeEMC"
             and calculatedEMC = "Some (929 / 50)"]
  have a1: "calculateRateOfSpread 10 30 0 ''2'' =
        Inr \<lparr>ros = 0, rosMetric = 0, rosFtPerMin = None, canSpread = False,
             reactionIntensity = None\<rparr>"
    using conjunct1 [OF a] .
  have a2: "predictFireBehavior (Some computeEMC) ?manual =
        Inr (NoSpread
          \<lparr>ns_message = ''Fuel moisture exceeds extinction moisture. Fire will not spread.'',
           ns_fuelModel = ''Timber Grass/Understory (1 ft)'',
           ns_emc = None\<rparr>)"
    using conjunct2 [OF conjunct2 [OF a]] by (simp add: withDefault_Some withDefault_None)
  have b2: "predictFireBehavior (Some computeEMC) ?auto =
        Inr (NoSpread
          \<lparr>ns_message = ''Fuel moisture exceeds extinction moisture. Fire will not spread.'',
           ns_fuelModel = ''Timber Grass/Understory (1 ft)'',
           ns_emc = Some (929 / 50)\<rparr>)"
    using conjunct1 [OF conjunct2 [OF b]] e by (simp add: withDefault_Some withDefault_None)
  have v: "computeEMC (JNum 60) (JNum 100) = Inr (929 / 50)"
    by (simp add: computeEMC_num)
  note d = no_spread_at_extinction [OF l damp, where rs = ?auto and emcOf = computeEMC]
  have b4: "predictFireBehavior (Some computeEMC) ?auto =
        Inr (NoSpread
          \<lparr>ns_message = ''Fuel moisture exceeds extinction moisture. Fire will not spread.'',
           ns_fuelModel = ''Timber Grass/Understory (1 ft)'',
           ns_emc = Some (929 / 50)\<rparr>)"
    using conjunct2 [OF conjunct2 [OF conjunct2 [OF d]]] v
    by (simp add: withDefault_Some withDefault_None)
  from l a1 a2 e b2 b4 v show ?thesis
    by simp
qed

text \<open>
  C1 as stated fails for predictFireBehavior when the EMC is computed: the fuel moisture
  30 is above the moisture of extinction 15 of model '2', but with useEMC true the EMC of
  (85, 25), 5.165, takes its place and the result spreads.
\<close>

theorem emc_replaces_wet_moisture:
  "lookupFuel ''2'' = Own \<lparr>name = ''Timber Grass/Understory (1 ft)'', load = 2.0,
       savRatio = 3000, depth = 1.0, moistureExt = 15, heatContent = 8000\<rparr>
   \<and> (15::real) \<le> 30
   \<and> emcBranch (Some computeEMC) True 85 25 30 = Inr (Some (1033 / 200), 1033 / 200)
   \<and> reportedCanSpread (predictFireBehavior (Some computeEMC)
         \<lparr>p_windSpeed = None, p_fuelMoisture = Some 30, p_slope = None,
          p_fuelModel = Some ''2'', p_temp = Some 85, p_rh = Some 25, p_useEMC = Some True\<rparr>)
       = Some True"
proof -
  let ?ps = "\<lparr>p_windSpeed = None, p_fuelMoisture = Some 30, p_slope = None,
          p_fuelModel = Some ''2'', p_temp = Some 85, p_rh = Some 25, p_useEMC = Some True\<rparr>"
  have emc: "emcBranch (Some computeEMC) True 85 25 30 = Inr (Some (1033 / 200), 1033 / 200)"
    by (simp add: emcBranch_def computeEMC_num)
  have own: "lookupFuel (withDefault (p_fuelModel ?ps) ''2'') =
          Own \<lparr>name = ''Timber Grass/Understory (1 ft)'', load = 2.0,
               savRatio = 3000, depth = 1.0, moistureExt = 15, heatContent = 8000\<rparr>"
    by (simp add: withDefault_Some lookup_timber_grass)
  have emc': "emcBranch (Some computeEMC) (withDefault (p_useEMC ?ps) False)
      (withDefault (p_temp ?ps) 70) (withDefault (p_rh ?ps) 30)
      (withDefault (p_fuelMoisture ?ps) 10) = Inr (Some (1033 / 200), 1033 / 200)"
    using emc by (simp add: withDefault_Some)
  have "\<exists>b. predictFireBehavior (Some computeEMC) ?ps = Inr (Behaviour b)"
    using predict_spreads [OF own emc'] by (fastforce simp: withDefault_None)
  then have "reportedCanSpread (predictFireBehavior (Some computeEMC) ?ps) = Some True"
    by (auto simp: reportedCanSpread_def)
  with emc lookup_timber_grass show ?thesis
    by simp
qed

text \<open>
  A key for which the lookup finds nothing, such as '99', is rejected: calculateRateOfSpread
  throws and predictFireBehavior returns the object with the error field.
\<close>

lemma unknown_fuel_model:
  assumes "lookupFuel fuelModel = Absent"
  shows "calculateRateOfSpread windSpeed fuelMoisture slope fuelModel = Inl (Error ''Invalid fuel model'')"
    and "withDefault (p_fuelModel ps) ''2'' = fuelModel \<Longrightarrow>
           predictFireBehavior calc ps = Inr (InvalidModel ''Invalid fuel model'')"
  using assms by (simp_all add: calculateRateOfSpread_def predictFireBehavior_def Let_def)

lemma lookup_99: "lookupFuel ''99'' = Absent"
  by (simp add: lookupFuel_def FUEL_MODELS_def objectPrototypeKeys_def)

text \<open>
  C7. The key 'constructor' is not in the fuel table, but the lookup finds the member of
  that name that every object inherits, and the test \<^verbatim>\<open>!fuel\<close> lets it pass:
  calculateRateOfSpread does not throw and predictFireBehavior does not return the error
  object. Both go on to arithmetic on \<^verbatim>\<open>undefined\<close>.
\<close>

theorem inherited_key_not_rejected:
  "lookupFuel ''constructor'' = Inherited
   \<and> calculateRateOfSpread 0 10 0 ''constructor'' = Inl NotReal
   \<and> predictFireBehavior (Some computeEMC)
        \<lparr>p_windSpeed = None, p_fuelMoisture = None, p_slope = None,
         p_fuelModel = Some ''constructor'', p_temp = None, p_rh = None, p_useEMC = None\<rparr>
       = Inl NotReal"
proof -
  have l: "lookupFuel ''constructor'' = Inherited"
    by (simp add: lookupFuel_def FUEL_MODELS_def objectPrototypeKeys_def)
  then show ?thesis
    by (simp add: calculateRateOfSpread_def predictFireBehavior_def Let_def withDefault_def
                  emcBranch_def)
qed

text \<open>
  C9. With fuel model '2', temperature 85 and relative humidity 25, predictFireBehavior
  called with useEMC false and the fuel moisture set to computeEMC(85, 25), and called
  with useEMC true and no fuel moisture, both return a result that spreads, and the two
  rates of spread in chains per hour differ by less than 0.1.
\<close>

theorem manual_and_emc_paths_agree:
  "\<exists>e a b.
     computeEMC (JNum 85) (JNum 25) = Inr e
     \<and> predictFireBehavior (Some computeEMC)
          \<lparr>p_windSpeed = None, p_fuelMoisture = Some e, p_slope = None,
           p_fuelModel = Some ''2'', p_temp = Some 85, p_rh = Some 25,
           p_useEMC = Some False\<rparr> = Inr (Behaviour a)
     \<and> predictFireBehavior (Some computeEMC)
          \<lparr>p_windSpeed = None, p_fuelMoisture = None, p_slope = None,
           p_fuelModel = Some ''2'', p_temp = Some 85, p_rh = Some 25,
           p_useEMC = Some True\<rparr> = Inr (Behaviour b)
     \<and> \<bar>chainsPerHour (rateOfSpread a) - chainsPerHour (rateOfSpread b)\<bar> < 0.1"
proof -
  let ?manual = "\<lparr>p_windSpeed = None, p_fuelMoisture = Some (1033 / 200), p_slope = None,
           p_fuelModel = Some ''2'', p_temp = Some 85, p_rh = Some 25,
           p_useEMC = Some False\<rparr>"
  let ?auto = "\<lparr>p_windSpeed = None, p_fuelMoisture = None, p_slope = None,
           p_fuelModel = Some ''2'', p_temp = Some 85, p_rh = Some 25,
           p_useEMC = Some True\<rparr>"
  have e: "computeEMC (JNum 85) (JNum 25) = Inr (1033 / 200)"
    by (simp add: computeEMC_num)
  have own: "lookupFuel (withDefault (p_fuelModel ps) ''2'') =
          Own \<lparr>name = ''Timber Grass/Understory (1 ft)'', load = 2.0,
               savRatio = 3000, depth = 1.0, moistureExt = 15, heatContent = 8000\<rparr>"
    if "p_fuelModel ps = Some ''2''" for ps :: params
    using that by (simp add: withDefault_def lookup_timber_grass)
  have m1: "emcBranch (Some computeEMC) (withDefault (p_useEMC ?manual) False)
              (withDefault (p_temp ?manual) 70) (withDefault (p_rh ?manual) 30)
              (withDefault (p_fuelMoisture ?manual) 10) = Inr (None, 1033 / 200)"
    by (simp add: emcBranch_def withDefault_def)
  have m2: "emcBranch (Some computeEMC) (withDefault (p_useEMC ?auto) False)
              (withDefault (p_temp ?auto) 70) (withDefault (p_rh ?auto) 30)
              (withDefault (p_fuelMoisture ?auto) 10) = Inr (Some (1033 / 200), 1033 / 200)"
    by (simp add: emcBranch_def withDefault_def e)
  obtain a where a: "predictFireBehavior (Some computeEMC) ?manual = Inr (Behaviour a)"
      and ca: "chainsPerHour (rateOfSpread a) =
                 round2 (ros (projr (calculateRateOfSpread 0 (1033 / 200) 0 ''2'')))"
    using predict_spreads [OF own m1] by (fastforce simp: withDefault_def)
  obtain b where b: "predictFireBehavior (Some computeEMC) ?auto = Inr (Behaviour b)"
      and cb: "chainsPerHour (rateOfSpread b) =
                 round2 (ros (projr (calculateRateOfSpread 0 (1033 / 200) 0 ''2'')))"
    using predict_spreads [OF own m2] by (fastforce simp: withDefault_def)
  show ?thesis
    using e a b ca cb by (intro exI [of _ "1033 / 200"] exI [of _ a] exI [of _ b]) simp
qed

text \<open>
  C10, amended. When predictFireBehavior is called with useEMC true and with a temperature
  or a relative humidity that is given and is zero, the EMC branch is skipped: no EMC is
  computed, the fuel moisture given (10 when none is) is the effective moisture, the
  result is the one of the same call with useEMC false, and it reports no EMC. A
  temperature or relative humidity that is not given takes its default, 70 or 30, and
  does not skip the branch.
\<close>

theorem emc_branch_skipped_on_zero:
  assumes "p_useEMC ps = Some True"
    and "p_temp ps = Some 0 \<or> p_rh ps = Some 0"
  shows "emcBranch calc (withDefault (p_useEMC ps) False) (withDefault (p_temp ps) 70)
           (withDefault (p_rh ps) 30) (withDefault (p_fuelMoisture ps) 10)
           = Inr (None, withDefault (p_fuelMoisture ps) 10)
       \<and> predictFireBehavior calc ps = predictFireBehavior calc (ps\<lparr>p_useEMC := Some False\<rparr>)
       \<and> reportedEMC (predictFireBehavior calc ps) = None"
proof -
  have skip: "emcBranch calc (withDefault (p_useEMC ps) False) (withDefault (p_temp ps) 70)
           (withDefault (p_rh ps) 30) (withDefault (p_fuelMoisture ps) 10)
           = Inr (None, withDefault (p_fuelMoisture ps) 10)"
    using assms by (auto simp: emcBranch_def withDefault_def)
  have off: "emcBranch calc False t h m = Inr (None, m)" for t h m
    by (simp add: emcBranch_def)
  have same: "predictFireBehavior calc ps = predictFireBehavior calc (ps\<lparr>p_useEMC := Some False\<rparr>)"
    by (cases "lookupFuel (withDefault (p_fuelModel ps) ''2'')")
       (simp_all add: predictFireBehavior_def Let_def skip off withDefault_Some)
  have none: "reportedEMC (predictFireBehavior calc ps) = None"
    by (cases "lookupFuel (withDefault (p_fuelModel ps) ''2'')")
       (simp_all add: predictFireBehavior_def Let_def skip reportedEMC_def
          split: sum.splits option.splits)
  from skip same none show ?thesis by simp
qed


theorem emc_branch_skipped_on_zero_witness:
  "p_useEMC \<lparr>p_windSpeed = Some 10, p_fuelMoisture = Some 8, p_slope = Some 0,
             p_fuelModel = Some ''2'', p_temp = Some 85, p_rh = Some 0,
             p_useEMC = Some True\<rparr> = Some True
   \<and> (p_temp \<lparr>p_windSpeed = Some 10, p_fuelMoisture = Some 8, p_slope = Some 0,
               p_fuelModel = Some ''2'', p_temp = Some 85, p_rh = Some 0,
               p_useEMC = Some True\<rparr> = Some 0
      \<or> p_rh \<lparr>p_windSpeed = Some 10, p_fuelMoisture = Some 8, p_slope = Some 0,
               p_fuelModel = Some ''2'', p_temp = Some 85, p_rh = Some 0,
               p_useEMC = Some True\<rparr> = Some 0)
   \<and> emcBranch (Some computeEMC) True 85 0 8 = Inr (None, 8)
   \<and> predictFireBehavior (Some computeEMC)
         \<lparr>p_windSpeed = Some 10, p_fuelMoisture = Some 8, p_slope = Some 0,
          p_fuelModel = Some ''2'', p_temp = Some 85, p_rh = Some 0, p_useEMC = Some True\<rparr>
       = predictFireBehavior (Some computeEMC)
         \<lparr>p_windSpeed = Some 10, p_fuelMoisture = Some 8, p_slope = Some 0,
          p_fuelModel = Some ''2'', p_temp = Some 85, p_rh = Some 0, p_useEMC = Some False\<rparr>
   \<and> reportedEMC (predictFireBehavior (Some computeEMC)
         \<lparr>p_windSpeed = Some 10, p_fuelMoisture = Some 8, p_slope = Some 0,
          p_fuelModel = Some ''2'', p_temp = Some 85, p_rh = Some 0, p_useEMC = Some True\<rparr>)
       = None"
proof -
  let ?ps = "\<lparr>p_windSpeed = Some 10, p_fuelMoisture = Some 8, p_slope = Some 0,
          p_fuelModel = Some ''2'', p_temp = Some 85, p_rh = Some 0, p_useEMC = Some True\<rparr>"
  have h1: "p_useEMC ?ps = Some True"
    by simp
  have h2: "p_temp ?ps = Some 0 \<or> p_rh ?ps = Some 0"
    by simp
  note c = emc_branch_skipped_on_zero [OF h1 h2, of "Some computeEMC"]
  have c1: "emcBranch (Some computeEMC) True 85 0 8 = Inr (None, 8)"
    using conjunct1 [OF c] by (simp add: withDefault_Some)
  have c2: "predictFireBehavior (Some computeEMC) ?ps =
            predictFireBehavior (Some computeEMC) (?ps\<lparr>p_useEMC := Some False\<rparr>)"
    using conjunct1 [OF conjunct2 [OF c]] .
  have c3: "reportedEMC (predictFireBehavior (Some computeEMC) ?ps) = None"
    using conjunct2 [OF conjunct2 [OF c]] .
  from h1 h2 c1 c3 show ?thesis
    using c2 by simp
qed

text \<open>
  C10 as stated fails where the temperature is not given: the default 70 is truthy, the
  EMC of (70, 25) is computed, 5.18, and the result reports it as 5.2.
\<close>

theorem absent_temp_computes_emc:
  "emcBranch (Some computeEMC) (withDefault (Some True) False) (withDefault None 70)
      (withDefault (Some 25) 30) (withDefault None 10) = Inr (Some (259 / 50), 259 / 50)
   \<and> reportedEMC (predictFireBehavior (Some computeEMC)
         \<lparr>p_windSpeed = None, p_fuelMoisture = None, p_slope = None,
          p_fuelModel = None, p_temp = None, p_rh = Some 25, p_useEMC = Some True\<rparr>)
       = Some (26 / 5)"
proof -
  let ?ps = "\<lparr>p_windSpeed = None, p_fuelMoisture = None, p_slope = None,
          p_fuelModel = None, p_temp = None, p_rh = Some 25, p_useEMC = Some True\<rparr>"
  have emc: "emcBranch (Some computeEMC) (withDefault (Some True) False) (withDefault None 70)
      (withDefault (Some 25) 30) (withDefault None 10) = Inr (Some (259 / 50), 259 / 50)"
    by (simp add: emcBranch_def withDefault_def computeEMC_num)
  have own: "lookupFuel (withDefault (p_fuelModel ?ps) ''2'') =
          Own \<lparr>name = ''Timber Grass/Understory (1 ft)'', load = 2.0,
               savRatio = 3000, depth = 1.0, moistureExt = 15, heatContent = 8000\<rparr>"
    by (simp add: withDefault_None lookup_timber_grass)
  have emc': "emcBranch (Some computeEMC) (withDefault (p_useEMC ?ps) False)
      (withDefault (p_temp ?ps) 70) (withDefault (p_rh ?ps) 30)
      (withDefault (p_fuelMoisture ?ps) 10) = Inr (Some (259 / 50), 259 / 50)"
    using emc by simp
  have "\<exists>b. predictFireBehavior (Some computeEMC) ?ps = Inr (Behaviour b)
             \<and> b_emc b = map_option round1 (Some (259 / 50))"
    using predict_spreads [OF own emc'] by (fastforce simp: withDefault_None)
  then have "reportedEMC (predictFireBehavior (Some computeEMC) ?ps) = Some (round1 (259 / 50))"
    by (auto simp: reportedEMC_def)
  moreover have "round1 (259 / 50) = 26 / 5"
    by (simp add: round1_def round_def)
  ultimately show ?thesis
    using emc by simp
qed

section \<open>Properties of the moisture model\<close>

text \<open>The library's stepMoisture refuses a time lag that is not positive.\<close>

lemma stepMoisture_lib_rejects:
  assumes "lag \<le> 0"
  shows "stepMoisture_lib (JNum c) (JNum e) (JNum h) (JNum lag) =
           Inl (Error ''Timelag must be greater than 0'')"
  using assms by (simp add: stepMoisture_lib_def)
























section \<open>Properties of the drying pattern\<close>





















end
